theory Spec2Isabelle
  imports Complex_Main "HOL-Library.Multiset"
begin

section \<open>The model-list hook of deep-research (src/hooks/useModelList.ts)\<close>

text \<open>
  The hook \<^verbatim>\<open>useModelList\<close> holds one piece of state, \<^verbatim>\<open>modelList\<close>, and exposes
  \<^verbatim>\<open>refresh(provider)\<close>: an eight-way branch on the provider identifier, each branch
  reading its settings, checking the credential its mode needs, issuing one
  \<^verbatim>\<open>fetch\<close>, and turning the JSON body into a list of model names.

  The embedding makes every effect a value: the requests handed to \<^verbatim>\<open>fetch\<close> are
  returned as a list, the state is passed in and returned, and a rejected promise
  (a failed fetch, a body that is not JSON, a \<^verbatim>\<open>TypeError\<close> raised while the body is
  read) is \<open>Inl\<close> of an error.
\<close>

subsection \<open>JavaScript values\<close>

text \<open>
  What \<^verbatim>\<open>response.json()\<close> resolves to has the static type \<^verbatim>\<open>any\<close>: it is any JSON
  value. An object is its list of members in the order of the text. A number is
  the double that parsing produced, given by its exact value; the hook neither
  inspects nor computes with numbers. A \<open>jsval\<close> is a JSON value or
  \<^verbatim>\<open>undefined\<close> (\<open>None\<close>). Strings are sequences of code units and the hook only
  compares them with ASCII literals, so \<open>string\<close> stands for them.
\<close>

datatype json =
    JNull
  | JBool bool
  | JNum rat
  | JStr string
  | JArr "json list"
  | JObj "(string \<times> json) list"

type_synonym jsval = "json option"

datatype error = TransportFailure | SyntaxError | TypeError

definition bindE :: "error + 'a \<Rightarrow> ('a \<Rightarrow> error + 'b) \<Rightarrow> error + 'b" where
  "bindE m f = (case m of Inl e \<Rightarrow> Inl e | Inr v \<Rightarrow> f v)"

text \<open>
  \<^verbatim>\<open>v.k\<close> for one of the property names the hook reads (\<^verbatim>\<open>models\<close>, \<^verbatim>\<open>data\<close>,
  \<^verbatim>\<open>name\<close>, \<^verbatim>\<open>id\<close>, \<^verbatim>\<open>supportedGenerationMethods\<close>): reading a property of
  \<^verbatim>\<open>null\<close> throws; an object parsed from JSON gives its member (the last one when
  the text repeats a key) or \<^verbatim>\<open>undefined\<close>; arrays, strings, numbers and booleans
  have no property of these names.
\<close>

fun get_prop :: "json \<Rightarrow> string \<Rightarrow> error + jsval" where
  "get_prop JNull k = Inl TypeError"
| "get_prop (JObj kvs) k = Inr (map_of (rev kvs) k)"
| "get_prop v k = Inr None"

text \<open>\<^verbatim>\<open>const { k = [] } = body\<close>: the default replaces \<^verbatim>\<open>undefined\<close> only.\<close>

definition destructure_default :: "json \<Rightarrow> string \<Rightarrow> error + json" where
  "destructure_default body k =
     bindE (get_prop body k) (\<lambda>v. case v of None \<Rightarrow> Inr (JArr []) | Some j \<Rightarrow> Inr j)"

text \<open>
  \<^verbatim>\<open>v.map(...)\<close> and \<^verbatim>\<open>v.filter(...)\<close> exist on arrays only; on anything else the
  call throws a \<^verbatim>\<open>TypeError\<close>.
\<close>

fun as_array :: "json \<Rightarrow> error + json list" where
  "as_array (JArr xs) = Inr xs"
| "as_array v = Inl TypeError"

text \<open>\<^verbatim>\<open>Array.prototype.map\<close> and \<^verbatim>\<open>filter\<close> with a callback that may throw.\<close>

fun mapE :: "('a \<Rightarrow> error + 'b) \<Rightarrow> 'a list \<Rightarrow> error + 'b list" where
  "mapE f [] = Inr []"
| "mapE f (x # xs) = bindE (f x) (\<lambda>y. bindE (mapE f xs) (\<lambda>ys. Inr (y # ys)))"

fun filterE :: "('a \<Rightarrow> error + bool) \<Rightarrow> 'a list \<Rightarrow> error + 'a list" where
  "filterE p [] = Inr []"
| "filterE p (x # xs) =
     bindE (p x) (\<lambda>b. bindE (filterE p xs) (\<lambda>ys. Inr (if b then x # ys else ys)))"

subsection \<open>String methods\<close>

fun startsWith :: "string \<Rightarrow> string \<Rightarrow> bool" where
  "startsWith s [] = True"
| "startsWith [] (p # ps) = False"
| "startsWith (c # cs) (p # ps) = (c = p \<and> startsWith cs ps)"

text \<open>\<^verbatim>\<open>s.includes(sub)\<close>: \<open>sub\<close> occurs somewhere in \<open>s\<close>.\<close>

fun includes_str :: "string \<Rightarrow> string \<Rightarrow> bool" where
  "includes_str [] sub = startsWith [] sub"
| "includes_str (c # cs) sub = (startsWith (c # cs) sub \<or> includes_str cs sub)"

text \<open>
  \<^verbatim>\<open>s.replace(pat, rep)\<close> with a string pattern replaces the first occurrence only
  (\<open>rep\<close> without \<^verbatim>\<open>$\<close>, as in the hook, where it is empty).
\<close>

fun replace_first :: "string \<Rightarrow> string \<Rightarrow> string \<Rightarrow> string" where
  "replace_first [] pat rep = (if pat = [] then rep else [])"
| "replace_first (c # cs) pat rep =
     (if startsWith (c # cs) pat then rep @ drop (length pat) (c # cs)
      else c # replace_first cs pat rep)"

text \<open>\<^verbatim>\<open>s.split(",")\<close>: never empty, \<^verbatim>\<open>"".split(",")\<close> is \<^verbatim>\<open>[""]\<close>.\<close>

fun js_split :: "string \<Rightarrow> string list" where
  "js_split [] = [[]]"
| "js_split (c # cs) =
     (if c = CHR '','' then [] # js_split cs
      else (case js_split cs of [] \<Rightarrow> [[c]] | w # ws \<Rightarrow> (c # w) # ws))"

text \<open>\<^verbatim>\<open>xs[0]\<close> is \<^verbatim>\<open>undefined\<close> on the empty array.\<close>

fun js_index0 :: "'a list \<Rightarrow> 'a option" where
  "js_index0 [] = None"
| "js_index0 (x # xs) = Some x"

text \<open>A value inside a template literal: \<^verbatim>\<open>undefined\<close> prints as its name.\<close>

fun template_str :: "string option \<Rightarrow> string" where
  "template_str None = ''undefined''"
| "template_str (Some s) = s"

text \<open>The methods as called on a value of unknown shape.\<close>

fun js_startsWith :: "jsval \<Rightarrow> string \<Rightarrow> error + bool" where
  "js_startsWith (Some (JStr s)) p = Inr (startsWith s p)"
| "js_startsWith v p = Inl TypeError"

text \<open>\<^verbatim>\<open>includes\<close> is a method of strings (substring) and of arrays (membership).\<close>

fun js_includes :: "jsval \<Rightarrow> string \<Rightarrow> error + bool" where
  "js_includes (Some (JStr s)) x = Inr (includes_str s x)"
| "js_includes (Some (JArr xs)) x = Inr (JStr x \<in> set xs)"
| "js_includes v x = Inl TypeError"

fun js_replace :: "jsval \<Rightarrow> string \<Rightarrow> string \<Rightarrow> error + jsval" where
  "js_replace (Some (JStr s)) pat rep = Inr (Some (JStr (replace_first s pat rep)))"
| "js_replace v pat rep = Inl TypeError"

subsection \<open>Settings, environment, requests\<close>

text \<open>
  The fields of the settings store that \<^verbatim>\<open>refresh\<close> reads, as strings (the
  configuration provider's credential strings, proxy URL overrides and shared access
  password), so the default in \<^verbatim>\<open>apiKey = ""\<close> leaves them as they are. The
  operating mode is read once, when the hook is rendered, and is a string too:
  \<^verbatim>\<open>refresh\<close> compares it with \<^verbatim>\<open>"local"\<close> and \<^verbatim>\<open>"proxy"\<close>.
\<close>

record setting =
  apiKey :: string
  apiProxy :: string
  accessPassword :: string
  openRouterApiKey :: string
  openRouterApiProxy :: string
  openAIApiKey :: string
  openAIApiProxy :: string
  anthropicApiKey :: string
  anthropicApiProxy :: string
  deepseekApiKey :: string
  deepseekApiProxy :: string
  xAIApiKey :: string
  xAIApiProxy :: string
  openAICompatibleApiKey :: string
  openAICompatibleApiProxy :: string
  ollamaApiProxy :: string

record request =
  url :: string
  headers :: "(string \<times> string option) list"

text \<open>
  What the hook imports and calls: the base URLs of \<^verbatim>\<open>@/constants/urls\<close>,
  \<^verbatim>\<open>completePath\<close> of \<^verbatim>\<open>@/utils/url\<close>, \<^verbatim>\<open>shuffle\<close> of radash (its outcome on this
  call), and the transport: \<^verbatim>\<open>fetch\<close> followed by \<^verbatim>\<open>response.json()\<close>, which
  rejects or resolves to a JSON value. A header value is a string or, where the
  hook passes \<^verbatim>\<open>apiKeys[0]\<close> of an empty array, \<^verbatim>\<open>undefined\<close>.
\<close>

record env =
  GEMINI_BASE_URL :: string
  OPENROUTER_BASE_URL :: string
  OPENAI_BASE_URL :: string
  ANTHROPIC_BASE_URL :: string
  DEEPSEEK_BASE_URL :: string
  XAI_BASE_URL :: string
  OLLAMA_BASE_URL :: string
  completePath :: "string \<Rightarrow> string \<Rightarrow> string"
  shuffle :: "string list \<Rightarrow> string list"
  fetch :: "request \<Rightarrow> error + json"

text \<open>
  One call of \<^verbatim>\<open>refresh\<close>: what the promise settles to, the requests handed to
  \<^verbatim>\<open>fetch\<close> in order, and \<^verbatim>\<open>modelList\<close> afterwards.
\<close>

record outcome =
  result :: "error + jsval list"
  requests :: "request list"
  modelList :: "jsval list"

text \<open>\<^verbatim>\<open>a || b\<close> on strings.\<close>

definition or_else :: "string \<Rightarrow> string \<Rightarrow> string" where
  "or_else a b = (if a \<noteq> [] then a else b)"

text \<open>\<^verbatim>\<open>return []\<close> before any request: nothing is fetched, nothing is set.\<close>

definition early_return :: "jsval list \<Rightarrow> outcome" where
  "early_return st = \<lparr>result = Inr [], requests = [], modelList = st\<rparr>"

text \<open>
  From \<^verbatim>\<open>await fetch(...)\<close> to \<^verbatim>\<open>return newModelList\<close>: the request is issued; a
  rejection anywhere leaves the state as it was; otherwise \<^verbatim>\<open>setModelList\<close> stores
  the new list, which is also returned.
\<close>

definition fetch_and_set ::
  "env \<Rightarrow> jsval list \<Rightarrow> request \<Rightarrow> (json \<Rightarrow> error + jsval list) \<Rightarrow> outcome" where
  "fetch_and_set e st req normalizer =
     (case bindE (fetch e req) normalizer of
        Inl err \<Rightarrow> \<lparr>result = Inl err, requests = [req], modelList = st\<rparr>
      | Inr newModelList \<Rightarrow>
          \<lparr>result = Inr newModelList, requests = [req], modelList = newModelList\<rparr>)"

subsection \<open>The response normalizers\<close>

text \<open>
  In each branch, the lines from \<^verbatim>\<open>const { models = [] } = await response.json()\<close>
  to the value of \<^verbatim>\<open>newModelList\<close>.
\<close>

definition google_keep :: "json \<Rightarrow> error + bool" where
  "google_keep item =
     bindE (get_prop item ''name'') (\<lambda>name.
     bindE (js_startsWith name ''models/gemini'') (\<lambda>b.
       if \<not> b then Inr False
       else bindE (get_prop item ''supportedGenerationMethods'') (\<lambda>ms.
              js_includes ms ''generateContent'')))"

definition google_name :: "json \<Rightarrow> error + jsval" where
  "google_name item =
     bindE (get_prop item ''name'') (\<lambda>name. js_replace name ''models/'' [])"

definition normalize_google :: "json \<Rightarrow> error + jsval list" where
  "normalize_google body =
     bindE (destructure_default body ''models'') (\<lambda>models.
     bindE (as_array models) (\<lambda>items.
     bindE (filterE google_keep items) (\<lambda>kept.
       mapE google_name kept)))"

text \<open>\<^verbatim>\<open>data.map((item) => item.id)\<close>: openrouter, anthropic, deepseek, openaicompatible.\<close>

definition item_id :: "json \<Rightarrow> error + jsval" where
  "item_id item = get_prop item ''id''"

definition normalize_ids :: "json \<Rightarrow> error + jsval list" where
  "normalize_ids body =
     bindE (destructure_default body ''data'') (\<lambda>data.
     bindE (as_array data) (\<lambda>items.
       mapE item_id items))"

definition openai_keep :: "jsval \<Rightarrow> error + bool" where
  "openai_keep ident =
     bindE (js_startsWith ident ''text'') (\<lambda>b1.
       if b1 then Inr False
       else bindE (js_startsWith ident ''tts'') (\<lambda>b2.
         if b2 then Inr False
         else bindE (js_startsWith ident ''whisper'') (\<lambda>b3.
           if b3 then Inr False
           else bindE (js_startsWith ident ''dall-e'') (\<lambda>b4. Inr (\<not> b4)))))"

definition normalize_openai :: "json \<Rightarrow> error + jsval list" where
  "normalize_openai body =
     bindE (destructure_default body ''data'') (\<lambda>data.
     bindE (as_array data) (\<lambda>items.
     bindE (mapE item_id items) (\<lambda>ids.
       filterE openai_keep ids)))"

definition xai_keep :: "jsval \<Rightarrow> error + bool" where
  "xai_keep ident = bindE (js_includes ident ''image'') (\<lambda>b. Inr (\<not> b))"

definition normalize_xai :: "json \<Rightarrow> error + jsval list" where
  "normalize_xai body =
     bindE (destructure_default body ''data'') (\<lambda>data.
     bindE (as_array data) (\<lambda>items.
     bindE (mapE item_id items) (\<lambda>ids.
       filterE xai_keep ids)))"

definition item_name :: "json \<Rightarrow> error + jsval" where
  "item_name item = get_prop item ''name''"

definition normalize_ollama :: "json \<Rightarrow> error + jsval list" where
  "normalize_ollama body =
     bindE (destructure_default body ''models'') (\<lambda>models.
     bindE (as_array models) (\<lambda>items.
       mapE item_name items))"

subsection \<open>refresh, branch by branch\<close>

text \<open>The guard that opens the seven branches with a provider key.\<close>

definition missing_credential :: "string \<Rightarrow> string \<Rightarrow> string \<Rightarrow> bool" where
  "missing_credential mode key password =
     ((mode = ''local'' \<and> key = []) \<or> (mode = ''proxy'' \<and> password = []))"

text \<open>\<^verbatim>\<open>authorization: `Bearer ${mode === "local" ? apiKeys[0] : accessPassword}`\<close>\<close>

definition bearer_headers ::
  "string \<Rightarrow> string list \<Rightarrow> string \<Rightarrow> (string \<times> string option) list" where
  "bearer_headers mode apiKeys password =
     [(''authorization'',
       Some (''Bearer '' @ template_str (if mode = ''local'' then js_index0 apiKeys else Some password)))]"

definition refresh_google :: "env \<Rightarrow> string \<Rightarrow> jsval list \<Rightarrow> setting \<Rightarrow> outcome" where
  "refresh_google e mode st s =
     (if missing_credential mode (apiKey s) (accessPassword s) then early_return st
      else
        let apiKeys = shuffle e (js_split (apiKey s)) in
        fetch_and_set e st
          \<lparr>url = (if mode = ''local''
                  then completePath e (or_else (apiProxy s) (GEMINI_BASE_URL e)) ''/v1beta'' @ ''/models''
                  else ''/api/ai/google/v1beta/models''),
           headers = [(''x-goog-api-key'',
                       if mode = ''local'' then js_index0 apiKeys else Some (accessPassword s))]\<rparr>
          normalize_google)"

definition refresh_openrouter :: "env \<Rightarrow> string \<Rightarrow> jsval list \<Rightarrow> setting \<Rightarrow> outcome" where
  "refresh_openrouter e mode st s =
     (if missing_credential mode (openRouterApiKey s) (accessPassword s) then early_return st
      else
        let apiKeys = shuffle e (js_split (openRouterApiKey s)) in
        fetch_and_set e st
          \<lparr>url = (if mode = ''local''
                  then completePath e (or_else (openRouterApiProxy s) (OPENROUTER_BASE_URL e)) ''/api/v1''
                       @ ''/models''
                  else ''/api/ai/openrouter/v1/models''),
           headers = bearer_headers mode apiKeys (accessPassword s)\<rparr>
          normalize_ids)"

definition refresh_openai :: "env \<Rightarrow> string \<Rightarrow> jsval list \<Rightarrow> setting \<Rightarrow> outcome" where
  "refresh_openai e mode st s =
     (if missing_credential mode (openAIApiKey s) (accessPassword s) then early_return st
      else
        let apiKeys = shuffle e (js_split (openAIApiKey s)) in
        fetch_and_set e st
          \<lparr>url = (if mode = ''local''
                  then completePath e (or_else (openAIApiProxy s) (OPENAI_BASE_URL e)) ''/v1'' @ ''/models''
                  else ''/api/ai/openai/v1/models''),
           headers = bearer_headers mode apiKeys (accessPassword s)\<rparr>
          normalize_openai)"

definition refresh_anthropic :: "env \<Rightarrow> string \<Rightarrow> jsval list \<Rightarrow> setting \<Rightarrow> outcome" where
  "refresh_anthropic e mode st s =
     (if missing_credential mode (anthropicApiKey s) (accessPassword s) then early_return st
      else
        let apiKeys = shuffle e (js_split (anthropicApiKey s)) in
        fetch_and_set e st
          \<lparr>url = (if mode = ''local''
                  then completePath e (or_else (anthropicApiProxy s) (ANTHROPIC_BASE_URL e)) ''/v1''
                       @ ''/models''
                  else ''/api/ai/anthropic/v1/models''),
           headers = [(''Content-Type'', Some ''application/json''),
                      (''x-api-key'',
                       if mode = ''local'' then js_index0 apiKeys else Some (accessPassword s)),
                      (''Anthropic-Version'', Some ''2023-06-01''),
                      (''anthropic-dangerous-direct-browser-access'', Some ''true'')]\<rparr>
          normalize_ids)"

definition refresh_deepseek :: "env \<Rightarrow> string \<Rightarrow> jsval list \<Rightarrow> setting \<Rightarrow> outcome" where
  "refresh_deepseek e mode st s =
     (if missing_credential mode (deepseekApiKey s) (accessPassword s) then early_return st
      else
        let apiKeys = shuffle e (js_split (deepseekApiKey s)) in
        fetch_and_set e st
          \<lparr>url = (if mode = ''local''
                  then completePath e (or_else (deepseekApiProxy s) (DEEPSEEK_BASE_URL e)) ''/v1''
                       @ ''/models''
                  else ''/api/ai/deepseek/v1/models''),
           headers = bearer_headers mode apiKeys (accessPassword s)\<rparr>
          normalize_ids)"

definition refresh_xai :: "env \<Rightarrow> string \<Rightarrow> jsval list \<Rightarrow> setting \<Rightarrow> outcome" where
  "refresh_xai e mode st s =
     (if missing_credential mode (xAIApiKey s) (accessPassword s) then early_return st
      else
        let apiKeys = shuffle e (js_split (xAIApiKey s)) in
        fetch_and_set e st
          \<lparr>url = (if mode = ''local''
                  then completePath e (or_else (xAIApiProxy s) (XAI_BASE_URL e)) ''/v1'' @ ''/models''
                  else ''/api/ai/xai/v1/models''),
           headers = bearer_headers mode apiKeys (accessPassword s)\<rparr>
          normalize_xai)"

definition refresh_openaicompatible ::
  "env \<Rightarrow> string \<Rightarrow> jsval list \<Rightarrow> setting \<Rightarrow> outcome" where
  "refresh_openaicompatible e mode st s =
     (if missing_credential mode (openAICompatibleApiKey s) (accessPassword s) then early_return st
      else
        let apiKeys = shuffle e (js_split (openAICompatibleApiKey s)) in
        fetch_and_set e st
          \<lparr>url = (if mode = ''local''
                  then completePath e (or_else (openAICompatibleApiProxy s) (OPENAI_BASE_URL e)) ''/v1''
                       @ ''/models''
                  else ''/api/ai/openaicompatible/v1/models''),
           headers = bearer_headers mode apiKeys (accessPassword s)\<rparr>
          normalize_ids)"

text \<open>
  The ollama branch reads no key: its guard has the proxy clause only, and its
  headers start empty and get one entry in proxy mode.
\<close>

definition refresh_ollama :: "env \<Rightarrow> string \<Rightarrow> jsval list \<Rightarrow> setting \<Rightarrow> outcome" where
  "refresh_ollama e mode st s =
     (if mode = ''proxy'' \<and> accessPassword s = [] then early_return st
      else
        let headers0 = [];
            headers1 = (if mode = ''proxy''
                        then headers0 @ [(''Authorization'', Some (''Bearer '' @ accessPassword s))]
                        else headers0)
        in fetch_and_set e st
             \<lparr>url = (if mode = ''proxy''
                     then ''/api/ai/ollama/api/tags''
                     else completePath e (or_else (ollamaApiProxy s) (OLLAMA_BASE_URL e)) ''/api'' @ ''/tags''),
              headers = headers1\<rparr>
             normalize_ollama)"

definition refresh :: "env \<Rightarrow> string \<Rightarrow> jsval list \<Rightarrow> string \<Rightarrow> setting \<Rightarrow> outcome" where
  "refresh e mode st provider s =
     (if provider = ''google'' then refresh_google e mode st s
      else if provider = ''openrouter'' then refresh_openrouter e mode st s
      else if provider = ''openai'' then refresh_openai e mode st s
      else if provider = ''anthropic'' then refresh_anthropic e mode st s
      else if provider = ''deepseek'' then refresh_deepseek e mode st s
      else if provider = ''xai'' then refresh_xai e mode st s
      else if provider = ''openaicompatible'' then refresh_openaicompatible e mode st s
      else if provider = ''ollama'' then refresh_ollama e mode st s
      else early_return st)"

subsection \<open>The hook's effect on provider change\<close>

text \<open>
  \<^verbatim>\<open>useEffect(() => { setModelList([]) }, [provider])\<close>: when the selected provider
  changes, the list is cleared.
\<close>

definition provider_changed :: "jsval list \<Rightarrow> jsval list" where
  "provider_changed st = []"

section \<open>Vocabulary of the properties\<close>

text \<open>The provider identifiers that have a branch of their own.\<close>

definition supported_providers :: "string list" where
  "supported_providers =
     [''google'', ''openrouter'', ''openai'', ''anthropic'', ''deepseek'', ''xai'',
      ''openaicompatible'', ''ollama'']"

text \<open>
  The key field a branch reads from the settings. The ollama branch reads none: the
  only settings it takes are \<^verbatim>\<open>ollamaApiProxy\<close> and \<^verbatim>\<open>accessPassword\<close>.
\<close>

fun provider_key :: "string \<Rightarrow> setting \<Rightarrow> string option" where
  "provider_key p s =
     (if p = ''google'' then Some (apiKey s)
      else if p = ''openrouter'' then Some (openRouterApiKey s)
      else if p = ''openai'' then Some (openAIApiKey s)
      else if p = ''anthropic'' then Some (anthropicApiKey s)
      else if p = ''deepseek'' then Some (deepseekApiKey s)
      else if p = ''xai'' then Some (xAIApiKey s)
      else if p = ''openaicompatible'' then Some (openAICompatibleApiKey s)
      else None)"

text \<open>
  The mode is local and the provider's key is empty, or the mode is proxy and the
  shared access password is empty.
\<close>

definition credential_missing :: "string \<Rightarrow> string \<Rightarrow> setting \<Rightarrow> bool" where
  "credential_missing mode p s =
     ((mode = ''local'' \<and> provider_key p s = Some []) \<or> (mode = ''proxy'' \<and> accessPassword s = []))"


text \<open>
  The pool of a key string is its list of comma-separated pieces: joining them with
  commas gives the key string back, and no piece holds a comma.
\<close>

fun join_comma :: "string list \<Rightarrow> string" where
  "join_comma [] = []"
| "join_comma [w] = w"
| "join_comma (w # v # ws) = w @ CHR '','' # join_comma (v # ws)"

text \<open>
  The request of local mode, written out per provider: the URL, which is built from the
  proxy URL override or the base URL and never from the key, and the complete header
  list for the credential \<open>k\<close>, in which \<open>k\<close> occurs once.
\<close>

definition local_url :: "env \<Rightarrow> string \<Rightarrow> setting \<Rightarrow> string" where
  "local_url e p s =
     (if p = ''google''
        then completePath e (or_else (apiProxy s) (GEMINI_BASE_URL e)) ''/v1beta'' @ ''/models''
      else if p = ''openrouter''
        then completePath e (or_else (openRouterApiProxy s) (OPENROUTER_BASE_URL e)) ''/api/v1''
             @ ''/models''
      else if p = ''openai''
        then completePath e (or_else (openAIApiProxy s) (OPENAI_BASE_URL e)) ''/v1'' @ ''/models''
      else if p = ''anthropic''
        then completePath e (or_else (anthropicApiProxy s) (ANTHROPIC_BASE_URL e)) ''/v1''
             @ ''/models''
      else if p = ''deepseek''
        then completePath e (or_else (deepseekApiProxy s) (DEEPSEEK_BASE_URL e)) ''/v1'' @ ''/models''
      else if p = ''xai''
        then completePath e (or_else (xAIApiProxy s) (XAI_BASE_URL e)) ''/v1'' @ ''/models''
      else if p = ''openaicompatible''
        then completePath e (or_else (openAICompatibleApiProxy s) (OPENAI_BASE_URL e)) ''/v1''
             @ ''/models''
      else completePath e (or_else (ollamaApiProxy s) (OLLAMA_BASE_URL e)) ''/api'' @ ''/tags'')"

definition local_headers :: "string \<Rightarrow> string \<Rightarrow> (string \<times> string option) list" where
  "local_headers p k =
     (if p = ''google'' then [(''x-goog-api-key'', Some k)]
      else if p = ''anthropic''
        then [(''Content-Type'', Some ''application/json''),
              (''x-api-key'', Some k),
              (''Anthropic-Version'', Some ''2023-06-01''),
              (''anthropic-dangerous-direct-browser-access'', Some ''true'')]
      else [(''authorization'', Some (''Bearer '' @ k))])"


subsection \<open>Typed views of the response\<close>

text \<open>
  The hook casts the arrays to \<^verbatim>\<open>GeminiModel[]\<close> and \<^verbatim>\<open>OpenAIModel[]\<close>. An entry has
  the shape of the interface, as far as the hook reads it, when \<^verbatim>\<open>name\<close> is a string
  and \<^verbatim>\<open>supportedGenerationMethods\<close> an array, respectively when \<^verbatim>\<open>id\<close> is a string.
  \<open>str_of\<close> and \<open>arr_of\<close> read a property that was found to be a string or an array.
\<close>

fun str_of :: "error + jsval \<Rightarrow> string option" where
  "str_of (Inr (Some (JStr s))) = Some s"
| "str_of v = None"

fun arr_of :: "error + jsval \<Rightarrow> json list option" where
  "arr_of (Inr (Some (JArr xs))) = Some xs"
| "arr_of v = None"

definition is_GeminiModel :: "json \<Rightarrow> bool" where
  "is_GeminiModel item =
     (str_of (get_prop item ''name'') \<noteq> None
      \<and> arr_of (get_prop item ''supportedGenerationMethods'') \<noteq> None)"

definition name_of :: "json \<Rightarrow> string" where
  "name_of item = (case str_of (get_prop item ''name'') of Some n \<Rightarrow> n | None \<Rightarrow> [])"

definition methods_of :: "json \<Rightarrow> json list" where
  "methods_of item =
     (case arr_of (get_prop item ''supportedGenerationMethods'') of Some ms \<Rightarrow> ms | None \<Rightarrow> [])"

text \<open>The entries the Google branch keeps.\<close>

definition gemini_kept :: "json \<Rightarrow> bool" where
  "gemini_kept item =
     (startsWith (name_of item) ''models/gemini''
      \<and> JStr ''generateContent'' \<in> set (methods_of item))"

definition is_OpenAIModel :: "json \<Rightarrow> bool" where
  "is_OpenAIModel item = (str_of (get_prop item ''id'') \<noteq> None)"

definition id_of :: "json \<Rightarrow> string" where
  "id_of item = (case str_of (get_prop item ''id'') of Some n \<Rightarrow> n | None \<Rightarrow> [])"

text \<open>The ids the OpenAI branch drops.\<close>

definition openai_dropped :: "string \<Rightarrow> bool" where
  "openai_dropped ident =
     (startsWith ident ''text'' \<or> startsWith ident ''tts'' \<or> startsWith ident ''whisper''
      \<or> startsWith ident ''dall-e'')"

text \<open>The two response bodies of the specification's examples.\<close>

definition google_example_models :: "json list" where
  "google_example_models =
     [JObj [(''name'', JStr ''models/gemini-pro''),
            (''supportedGenerationMethods'', JArr [JStr ''generateContent''])],
      JObj [(''name'', JStr ''models/gemini-old''),
            (''supportedGenerationMethods'', JArr [JStr ''embedContent''])],
      JObj [(''name'', JStr ''models/other-x''),
            (''supportedGenerationMethods'', JArr [JStr ''generateContent''])]]"

definition google_example :: json where
  "google_example = JObj [(''models'', JArr google_example_models)]"

definition openai_example_data :: "json list" where
  "openai_example_data =
     [JObj [(''id'', JStr ''gpt-4'')], JObj [(''id'', JStr ''whisper-1'')],
      JObj [(''id'', JStr ''dall-e-3'')], JObj [(''id'', JStr ''text-embedding-3'')]]"

definition openai_example :: json where
  "openai_example = JObj [(''data'', JArr openai_example_data)]"

text \<open>The array field a branch takes from the body, and the normalizer it applies.\<close>

definition array_field :: "string \<Rightarrow> string" where
  "array_field p = (if p = ''google'' \<or> p = ''ollama'' then ''models'' else ''data'')"

definition normalizer_of :: "string \<Rightarrow> json \<Rightarrow> error + jsval list" where
  "normalizer_of p =
     (if p = ''google'' then normalize_google
      else if p = ''openai'' then normalize_openai
      else if p = ''xai'' then normalize_xai
      else if p = ''ollama'' then normalize_ollama
      else normalize_ids)"

text \<open>
  A body lacks a field when it is an object without a member of that name, or no
  object at all (\<^verbatim>\<open>null\<close> included).
\<close>

fun field_absent :: "json \<Rightarrow> string \<Rightarrow> bool" where
  "field_absent (JObj kvs) k = (k \<notin> set (map fst kvs))"
| "field_absent v k = True"

subsection \<open>A concrete environment\<close>

fun endsWith :: "string \<Rightarrow> string \<Rightarrow> bool" where
  "endsWith s suffix = startsWith (rev s) (rev suffix)"

text \<open>
  Modelled from the spec: \<^verbatim>\<open>completePath\<close> of \<^verbatim>\<open>@/utils/url\<close>, which is not among the
  sources: strip a trailing slash from the base; if the base already ends with the
  prefix, return it unchanged; else append the prefix. It serves the example
  environment only; every theorem below holds for any \<^verbatim>\<open>completePath\<close>.
\<close>

definition completePath_spec :: "string \<Rightarrow> string \<Rightarrow> string" where
  "completePath_spec base prefix =
     (let b = (if endsWith base ''/'' then butlast base else base)
      in if endsWith b prefix then b else b @ prefix)"

definition example_body :: json where
  "example_body =
     JObj [(''models'', JArr [JObj [(''name'', JStr ''llama3'')]]),
           (''data'', JArr [JObj [(''id'', JStr ''gpt-4'')]])]"

text \<open>
  An environment to run the hook in: example base URLs, a \<^verbatim>\<open>shuffle\<close> that happens to
  reverse, and a transport that answers every request with \<open>example_body\<close>.
\<close>

definition example_env :: env where
  "example_env =
     \<lparr>GEMINI_BASE_URL = ''https://gemini.example'',
      OPENROUTER_BASE_URL = ''https://openrouter.example'',
      OPENAI_BASE_URL = ''https://openai.example'',
      ANTHROPIC_BASE_URL = ''https://anthropic.example'',
      DEEPSEEK_BASE_URL = ''https://deepseek.example'',
      XAI_BASE_URL = ''https://xai.example'',
      OLLAMA_BASE_URL = ''http://localhost:11434'',
      completePath = completePath_spec,
      shuffle = rev,
      fetch = (\<lambda>req. Inr example_body)\<rparr>"

text \<open>The settings with every field empty.\<close>

definition empty_setting :: setting where
  "empty_setting =
     \<lparr>apiKey = [], apiProxy = [], accessPassword = [],
      openRouterApiKey = [], openRouterApiProxy = [],
      openAIApiKey = [], openAIApiProxy = [],
      anthropicApiKey = [], anthropicApiProxy = [],
      deepseekApiKey = [], deepseekApiProxy = [],
      xAIApiKey = [], xAIApiProxy = [],
      openAICompatibleApiKey = [], openAICompatibleApiProxy = [],
      ollamaApiProxy = []\<rparr>"

text \<open>The same environment with a transport that answers \<^verbatim>\<open>null\<close>.\<close>

definition null_env :: env where
  "null_env = example_env\<lparr>fetch := (\<lambda>req. Inr JNull)\<rparr>"

section \<open>Lemmas about the branches\<close>

lemma requests_early_return: "requests (early_return st) = []"
  and result_early_return: "result (early_return st) = Inr []"
  and modelList_early_return: "modelList (early_return st) = st"
  by (simp_all add: early_return_def)

lemma requests_fetch_and_set: "requests (fetch_and_set e st req n) = [req]"
  by (simp add: fetch_and_set_def split: sum.split)

lemmas branch_defs = refresh_google_def refresh_openrouter_def refresh_openai_def
  refresh_anthropic_def refresh_deepseek_def refresh_xai_def refresh_openaicompatible_def
  refresh_ollama_def

lemma refresh_google: "refresh e mode st ''google'' s = refresh_google e mode st s"
  and refresh_openrouter: "refresh e mode st ''openrouter'' s = refresh_openrouter e mode st s"
  and refresh_openai: "refresh e mode st ''openai'' s = refresh_openai e mode st s"
  and refresh_anthropic: "refresh e mode st ''anthropic'' s = refresh_anthropic e mode st s"
  and refresh_deepseek: "refresh e mode st ''deepseek'' s = refresh_deepseek e mode st s"
  and refresh_xai: "refresh e mode st ''xai'' s = refresh_xai e mode st s"
  and refresh_openaicompatible:
    "refresh e mode st ''openaicompatible'' s = refresh_openaicompatible e mode st s"
  and refresh_ollama: "refresh e mode st ''ollama'' s = refresh_ollama e mode st s"
  by (simp_all add: refresh_def)

lemma supported_cases:
  assumes "p \<in> set supported_providers"
  shows "p = ''google'' \<or> p = ''openrouter'' \<or> p = ''openai'' \<or> p = ''anthropic''
      \<or> p = ''deepseek'' \<or> p = ''xai'' \<or> p = ''openaicompatible'' \<or> p = ''ollama''"
  using assms unfolding supported_providers_def
  by (simp only: list.set insert_iff empty_iff simp_thms)

lemma key_google: "provider_key ''google'' s = Some (apiKey s)"
  and key_openrouter: "provider_key ''openrouter'' s = Some (openRouterApiKey s)"
  and key_openai: "provider_key ''openai'' s = Some (openAIApiKey s)"
  and key_anthropic: "provider_key ''anthropic'' s = Some (anthropicApiKey s)"
  and key_deepseek: "provider_key ''deepseek'' s = Some (deepseekApiKey s)"
  and key_xai: "provider_key ''xai'' s = Some (xAIApiKey s)"
  and key_openaicompatible: "provider_key ''openaicompatible'' s = Some (openAICompatibleApiKey s)"
  and key_ollama: "provider_key ''ollama'' s = None"
  by simp_all

lemmas provider_keys = key_google key_openrouter key_openai key_anthropic key_deepseek key_xai
  key_openaicompatible key_ollama

lemmas refresh_branches = refresh_google refresh_openrouter refresh_openai refresh_anthropic
  refresh_deepseek refresh_xai refresh_openaicompatible refresh_ollama

lemma early_when_missing:
  assumes "p \<in> set supported_providers" and "credential_missing mode p s"
  shows "refresh e mode st p s = early_return st"
proof -
  note defs = credential_missing_def missing_credential_def refresh_branches provider_keys branch_defs
  from supported_cases [OF assms(1)] show ?thesis
  proof (elim disjE)
    assume "p = ''google''" with assms(2) show ?thesis by (simp add: defs)
  next
    assume "p = ''openrouter''" with assms(2) show ?thesis by (simp add: defs)
  next
    assume "p = ''openai''" with assms(2) show ?thesis by (simp add: defs)
  next
    assume "p = ''anthropic''" with assms(2) show ?thesis by (simp add: defs)
  next
    assume "p = ''deepseek''" with assms(2) show ?thesis by (simp add: defs)
  next
    assume "p = ''xai''" with assms(2) show ?thesis by (simp add: defs)
  next
    assume "p = ''openaicompatible''" with assms(2) show ?thesis by (simp add: defs)
  next
    assume "p = ''ollama''" with assms(2) show ?thesis by (simp add: defs)
  qed
qed

lemma fetched_google:
  "\<not> missing_credential mode (apiKey s) (accessPassword s) \<Longrightarrow>
   refresh_google e mode st s =
     fetch_and_set e st
       \<lparr>url = (if mode = ''local''
               then completePath e (or_else (apiProxy s) (GEMINI_BASE_URL e)) ''/v1beta'' @ ''/models''
               else ''/api/ai/google/v1beta/models''),
        headers = [(''x-goog-api-key'',
                    if mode = ''local'' then js_index0 (shuffle e (js_split (apiKey s)))
                    else Some (accessPassword s))]\<rparr>
       normalize_google"
  by (simp add: refresh_google_def Let_def)

lemma fetched_openrouter:
  "\<not> missing_credential mode (openRouterApiKey s) (accessPassword s) \<Longrightarrow>
   refresh_openrouter e mode st s =
     fetch_and_set e st
       \<lparr>url = (if mode = ''local''
               then completePath e (or_else (openRouterApiProxy s) (OPENROUTER_BASE_URL e)) ''/api/v1''
                    @ ''/models''
               else ''/api/ai/openrouter/v1/models''),
        headers = bearer_headers mode (shuffle e (js_split (openRouterApiKey s))) (accessPassword s)\<rparr>
       normalize_ids"
  by (simp add: refresh_openrouter_def Let_def)

lemma fetched_openai:
  "\<not> missing_credential mode (openAIApiKey s) (accessPassword s) \<Longrightarrow>
   refresh_openai e mode st s =
     fetch_and_set e st
       \<lparr>url = (if mode = ''local''
               then completePath e (or_else (openAIApiProxy s) (OPENAI_BASE_URL e)) ''/v1'' @ ''/models''
               else ''/api/ai/openai/v1/models''),
        headers = bearer_headers mode (shuffle e (js_split (openAIApiKey s))) (accessPassword s)\<rparr>
       normalize_openai"
  by (simp add: refresh_openai_def Let_def)

lemma fetched_anthropic:
  "\<not> missing_credential mode (anthropicApiKey s) (accessPassword s) \<Longrightarrow>
   refresh_anthropic e mode st s =
     fetch_and_set e st
       \<lparr>url = (if mode = ''local''
               then completePath e (or_else (anthropicApiProxy s) (ANTHROPIC_BASE_URL e)) ''/v1''
                    @ ''/models''
               else ''/api/ai/anthropic/v1/models''),
        headers = [(''Content-Type'', Some ''application/json''),
                   (''x-api-key'',
                    if mode = ''local'' then js_index0 (shuffle e (js_split (anthropicApiKey s)))
                    else Some (accessPassword s)),
                   (''Anthropic-Version'', Some ''2023-06-01''),
                   (''anthropic-dangerous-direct-browser-access'', Some ''true'')]\<rparr>
       normalize_ids"
  by (simp add: refresh_anthropic_def Let_def)

lemma fetched_deepseek:
  "\<not> missing_credential mode (deepseekApiKey s) (accessPassword s) \<Longrightarrow>
   refresh_deepseek e mode st s =
     fetch_and_set e st
       \<lparr>url = (if mode = ''local''
               then completePath e (or_else (deepseekApiProxy s) (DEEPSEEK_BASE_URL e)) ''/v1''
                    @ ''/models''
               else ''/api/ai/deepseek/v1/models''),
        headers = bearer_headers mode (shuffle e (js_split (deepseekApiKey s))) (accessPassword s)\<rparr>
       normalize_ids"
  by (simp add: refresh_deepseek_def Let_def)

lemma fetched_xai:
  "\<not> missing_credential mode (xAIApiKey s) (accessPassword s) \<Longrightarrow>
   refresh_xai e mode st s =
     fetch_and_set e st
       \<lparr>url = (if mode = ''local''
               then completePath e (or_else (xAIApiProxy s) (XAI_BASE_URL e)) ''/v1'' @ ''/models''
               else ''/api/ai/xai/v1/models''),
        headers = bearer_headers mode (shuffle e (js_split (xAIApiKey s))) (accessPassword s)\<rparr>
       normalize_xai"
  by (simp add: refresh_xai_def Let_def)

lemma fetched_openaicompatible:
  "\<not> missing_credential mode (openAICompatibleApiKey s) (accessPassword s) \<Longrightarrow>
   refresh_openaicompatible e mode st s =
     fetch_and_set e st
       \<lparr>url = (if mode = ''local''
               then completePath e (or_else (openAICompatibleApiProxy s) (OPENAI_BASE_URL e)) ''/v1''
                    @ ''/models''
               else ''/api/ai/openaicompatible/v1/models''),
        headers = bearer_headers mode (shuffle e (js_split (openAICompatibleApiKey s)))
                    (accessPassword s)\<rparr>
       normalize_ids"
  by (simp add: refresh_openaicompatible_def Let_def)

lemma fetched_ollama:
  "\<not> (mode = ''proxy'' \<and> accessPassword s = []) \<Longrightarrow>
   refresh_ollama e mode st s =
     fetch_and_set e st
       \<lparr>url = (if mode = ''proxy''
               then ''/api/ai/ollama/api/tags''
               else completePath e (or_else (ollamaApiProxy s) (OLLAMA_BASE_URL e)) ''/api'' @ ''/tags''),
        headers = (if mode = ''proxy''
                   then [(''Authorization'', Some (''Bearer '' @ accessPassword s))] else [])\<rparr>
       normalize_ollama"
  by (simp add: refresh_ollama_def Let_def)

lemma unknown_provider:
  assumes "p \<notin> set supported_providers"
  shows "refresh e mode st p s = early_return st"
  using assms unfolding supported_providers_def refresh_def
  by (simp only: list.set insert_iff empty_iff simp_thms de_Morgan_disj if_False)

lemma normalizer_google: "normalizer_of ''google'' = normalize_google"
  and normalizer_openrouter: "normalizer_of ''openrouter'' = normalize_ids"
  and normalizer_openai: "normalizer_of ''openai'' = normalize_openai"
  and normalizer_anthropic: "normalizer_of ''anthropic'' = normalize_ids"
  and normalizer_deepseek: "normalizer_of ''deepseek'' = normalize_ids"
  and normalizer_xai: "normalizer_of ''xai'' = normalize_xai"
  and normalizer_openaicompatible: "normalizer_of ''openaicompatible'' = normalize_ids"
  and normalizer_ollama: "normalizer_of ''ollama'' = normalize_ollama"
  by (simp_all add: normalizer_of_def)

lemmas normalizers = normalizer_google normalizer_openrouter normalizer_openai
  normalizer_anthropic normalizer_deepseek normalizer_xai normalizer_openaicompatible
  normalizer_ollama

lemma fetched_with_normalizer:
  assumes "p \<in> set supported_providers" and "\<not> credential_missing mode p s"
  shows "\<exists>req. refresh e mode st p s = fetch_and_set e st req (normalizer_of p)"
proof -
  note defs = credential_missing_def missing_credential_def refresh_branches provider_keys
  from supported_cases [OF assms(1)] show ?thesis
  proof (elim disjE)
    assume p: "p = ''google''"
    with assms(2) have "\<not> missing_credential mode (apiKey s) (accessPassword s)"
      by (simp add: defs)
    from fetched_google [OF this] p show ?thesis
      by (simp only: refresh_google normalizer_google) blast
  next
    assume p: "p = ''openrouter''"
    with assms(2) have "\<not> missing_credential mode (openRouterApiKey s) (accessPassword s)"
      by (simp add: defs)
    from fetched_openrouter [OF this] p show ?thesis
      by (simp only: refresh_openrouter normalizer_openrouter) blast
  next
    assume p: "p = ''openai''"
    with assms(2) have "\<not> missing_credential mode (openAIApiKey s) (accessPassword s)"
      by (simp add: defs)
    from fetched_openai [OF this] p show ?thesis
      by (simp only: refresh_openai normalizer_openai) blast
  next
    assume p: "p = ''anthropic''"
    with assms(2) have "\<not> missing_credential mode (anthropicApiKey s) (accessPassword s)"
      by (simp add: defs)
    from fetched_anthropic [OF this] p show ?thesis
      by (simp only: refresh_anthropic normalizer_anthropic) blast
  next
    assume p: "p = ''deepseek''"
    with assms(2) have "\<not> missing_credential mode (deepseekApiKey s) (accessPassword s)"
      by (simp add: defs)
    from fetched_deepseek [OF this] p show ?thesis
      by (simp only: refresh_deepseek normalizer_deepseek) blast
  next
    assume p: "p = ''xai''"
    with assms(2) have "\<not> missing_credential mode (xAIApiKey s) (accessPassword s)"
      by (simp add: defs)
    from fetched_xai [OF this] p show ?thesis
      by (simp only: refresh_xai normalizer_xai) blast
  next
    assume p: "p = ''openaicompatible''"
    with assms(2)
    have "\<not> missing_credential mode (openAICompatibleApiKey s) (accessPassword s)"
      by (simp add: defs)
    from fetched_openaicompatible [OF this] p show ?thesis
      by (simp only: refresh_openaicompatible normalizer_openaicompatible) blast
  next
    assume p: "p = ''ollama''"
    with assms(2) have "\<not> (mode = ''proxy'' \<and> accessPassword s = [])"
      by (simp add: defs)
    from fetched_ollama [OF this] p show ?thesis
      by (simp only: refresh_ollama normalizer_ollama) blast
  qed
qed

lemma no_request_iff:
  "requests (refresh e mode st p s) = [] \<longleftrightarrow>
     p \<notin> set supported_providers \<or> credential_missing mode p s"
proof (cases "p \<in> set supported_providers")
  case False
  then show ?thesis by (simp add: unknown_provider requests_early_return)
next
  case True
  show ?thesis
  proof (cases "credential_missing mode p s")
    case True
    with \<open>p \<in> set supported_providers\<close> show ?thesis
      by (simp add: early_when_missing requests_early_return)
  next
    case False
    from fetched_with_normalizer [OF \<open>p \<in> set supported_providers\<close> False]
    obtain req where "refresh e mode st p s = fetch_and_set e st req (normalizer_of p)"
      by blast
    with False \<open>p \<in> set supported_providers\<close> show ?thesis
      by (simp add: requests_fetch_and_set)
  qed
qed


lemma js_split_nonempty: "js_split s \<noteq> []"
  by (induction s) (auto split: list.splits)

lemma first_of_permutation:
  assumes "mset ys = mset xs" and "xs \<noteq> []"
  shows "\<exists>k rest. ys = k # rest \<and> k \<in> set xs"
proof (cases ys)
  case Nil
  with assms show ?thesis by simp
next
  case (Cons k rest)
  from assms(1) have "set ys = set xs" by (rule mset_eq_setD)
  with Cons show ?thesis by auto
qed

lemma join_comma_Cons: "join_comma ((c # w) # ws) = c # join_comma (w # ws)"
  by (cases ws) simp_all

lemma join_comma_Nil: "ws \<noteq> [] \<Longrightarrow> join_comma ([] # ws) = CHR '','' # join_comma ws"
  by (cases ws) simp_all

lemma join_js_split: "join_comma (js_split s) = s"
proof (induction s)
  case Nil
  show ?case by simp
next
  case (Cons c cs)
  show ?case
  proof (cases "c = CHR '',''")
    case True
    with Cons show ?thesis by (simp add: join_comma_Nil js_split_nonempty)
  next
    case False
    obtain w ws where "js_split cs = w # ws"
      using js_split_nonempty [of cs] by (cases "js_split cs") auto
    with False Cons show ?thesis by (simp add: join_comma_Cons)
  qed
qed

lemma js_split_comma_free: "w \<in> set (js_split s) \<Longrightarrow> CHR '','' \<notin> set w"
proof (induction s arbitrary: w)
  case Nil
  then show ?case by simp
next
  case (Cons c cs)
  show ?case
  proof (cases "c = CHR '',''")
    case True
    with Cons show ?thesis by auto
  next
    case False
    obtain v vs where "js_split cs = v # vs"
      using js_split_nonempty [of cs] by (cases "js_split cs") auto
    with False Cons show ?thesis by auto
  qed
qed

section \<open>Lemmas about the normalizers\<close>

lemma fetch_and_set_result:
  assumes "fetch e req = Inr body"
  shows "result (fetch_and_set e st req n) = n body"
    and "modelList (fetch_and_set e st req n) = (case n body of Inl err \<Rightarrow> st | Inr l \<Rightarrow> l)"
  using assms by (simp_all add: fetch_and_set_def bindE_def split: sum.split)

lemma refresh_result:
  assumes "p \<in> set supported_providers"
    and "requests (refresh e mode st p s) = [req]"
    and "fetch e req = Inr body"
  shows "result (refresh e mode st p s) = normalizer_of p body"
    and "modelList (refresh e mode st p s)
           = (case normalizer_of p body of Inl err \<Rightarrow> st | Inr l \<Rightarrow> l)"
proof -
  from assms(1,2) have "\<not> credential_missing mode p s"
    using no_request_iff [of e mode st p s] by auto
  from fetched_with_normalizer [OF assms(1) this]
  obtain r where r: "refresh e mode st p s = fetch_and_set e st r (normalizer_of p)"
    by blast
  with assms(2) have "r = req" by (simp add: requests_fetch_and_set)
  with r assms(3) show "result (refresh e mode st p s) = normalizer_of p body"
    and "modelList (refresh e mode st p s)
           = (case normalizer_of p body of Inl err \<Rightarrow> st | Inr l \<Rightarrow> l)"
    by (simp_all add: fetch_and_set_result)
qed

lemma absent_undefined:
  assumes "body \<noteq> JNull" and "field_absent body k"
  shows "get_prop body k = Inr None"
  using assms by (cases body) (simp_all add: map_of_eq_None_iff)

lemma default_models:
  assumes "get_prop body ''models'' = Inr None"
  shows "normalize_google body = Inr []" and "normalize_ollama body = Inr []"
  using assms
  by (simp_all add: normalize_google_def normalize_ollama_def destructure_default_def bindE_def)

lemma default_data:
  assumes "get_prop body ''data'' = Inr None"
  shows "normalize_ids body = Inr []" and "normalize_openai body = Inr []"
    and "normalize_xai body = Inr []"
  using assms
  by (simp_all add: normalize_ids_def normalize_openai_def normalize_xai_def
      destructure_default_def bindE_def)

lemma normalizer_default:
  assumes "p \<in> set supported_providers" and "get_prop body (array_field p) = Inr None"
  shows "normalizer_of p body = Inr []"
  using supported_cases [OF assms(1)]
proof (elim disjE)
  assume "p = ''google''" with assms(2) show ?thesis
    by (simp add: normalizers array_field_def default_models)
next
  assume "p = ''openrouter''" with assms(2) show ?thesis
    by (simp add: normalizers array_field_def default_data)
next
  assume "p = ''openai''" with assms(2) show ?thesis
    by (simp add: normalizers array_field_def default_data)
next
  assume "p = ''anthropic''" with assms(2) show ?thesis
    by (simp add: normalizers array_field_def default_data)
next
  assume "p = ''deepseek''" with assms(2) show ?thesis
    by (simp add: normalizers array_field_def default_data)
next
  assume "p = ''xai''" with assms(2) show ?thesis
    by (simp add: normalizers array_field_def default_data)
next
  assume "p = ''openaicompatible''" with assms(2) show ?thesis
    by (simp add: normalizers array_field_def default_data)
next
  assume "p = ''ollama''" with assms(2) show ?thesis
    by (simp add: normalizers array_field_def default_models)
qed

lemma str_of_Some: "str_of v = Some s \<longleftrightarrow> v = Inr (Some (JStr s))"
  by (cases "(v)" rule: str_of.cases) auto

lemma arr_of_Some: "arr_of v = Some xs \<longleftrightarrow> v = Inr (Some (JArr xs))"
  by (cases "(v)" rule: arr_of.cases) auto

lemma GeminiModel_props:
  assumes "is_GeminiModel item"
  shows "get_prop item ''name'' = Inr (Some (JStr (name_of item)))"
    and "get_prop item ''supportedGenerationMethods'' = Inr (Some (JArr (methods_of item)))"
  using assms
  by (auto simp: is_GeminiModel_def name_of_def methods_of_def str_of_Some arr_of_Some)

lemma OpenAIModel_props:
  assumes "is_OpenAIModel item"
  shows "get_prop item ''id'' = Inr (Some (JStr (id_of item)))"
  using assms by (auto simp: is_OpenAIModel_def id_of_def str_of_Some)

lemma filterE_pure:
  "(\<And>x. x \<in> set xs \<Longrightarrow> p x = Inr (q x)) \<Longrightarrow> filterE p xs = Inr (filter q xs)"
  by (induction xs) (simp_all add: bindE_def)

lemma mapE_pure:
  "(\<And>x. x \<in> set xs \<Longrightarrow> f x = Inr (g x)) \<Longrightarrow> mapE f xs = Inr (map g xs)"
  by (induction xs) (simp_all add: bindE_def)

lemma startsWith_append: "startsWith s (p @ q) \<Longrightarrow> startsWith s p"
  by (induction s p rule: startsWith.induct) auto

lemma replace_first_prefix:
  assumes "startsWith s pat"
  shows "replace_first s pat rep = rep @ drop (length pat) s"
  using assms by (cases s; cases pat) auto

lemma strip_models_prefix:
  assumes "startsWith n ''models/gemini''"
  shows "replace_first n ''models/'' [] = drop (length ''models/'') n"
proof -
  from assms have "startsWith n (''models/'' @ ''gemini'')" by simp
  then have "startsWith n ''models/''" by (rule startsWith_append)
  from replace_first_prefix [OF this] show ?thesis by simp
qed

lemma google_keep_typed:
  assumes "is_GeminiModel item"
  shows "google_keep item = Inr (gemini_kept item)"
  by (simp add: google_keep_def GeminiModel_props [OF assms] bindE_def gemini_kept_def)

lemma google_name_typed:
  assumes "is_GeminiModel item" and "gemini_kept item"
  shows "google_name item = Inr (Some (JStr (drop (length ''models/'') (name_of item))))"
proof -
  from assms(2) have "startsWith (name_of item) ''models/gemini''"
    by (simp add: gemini_kept_def)
  from strip_models_prefix [OF this] show ?thesis
    by (simp add: google_name_def GeminiModel_props [OF assms(1)] bindE_def)
qed

lemma openai_keep_str: "openai_keep (Some (JStr i)) = Inr (\<not> openai_dropped i)"
  by (simp add: openai_keep_def openai_dropped_def bindE_def)

section \<open>The properties\<close>

text \<open>
  C1, as stated, fails at ollama in local mode: the branch reads no key of its own, so
  the provider's credential is absent (as is, here, the access password), yet the call
  issues its request and returns the models of the response.
\<close>

theorem ollama_local_fetches_without_key:
  "''ollama'' \<in> set supported_providers
   \<and> provider_key ''ollama'' empty_setting = None
   \<and> accessPassword empty_setting = []
   \<and> length (requests (refresh example_env ''local'' [Some (JStr ''old-model'')] ''ollama'' empty_setting)) = 1
   \<and> result (refresh example_env ''local'' [Some (JStr ''old-model'')] ''ollama'' empty_setting)
       = Inr [Some (JStr ''llama3'')]"
  by (simp add: supported_providers_def refresh_ollama refresh_ollama_def Let_def
      fetch_and_set_def example_env_def empty_setting_def or_else_def completePath_spec_def
      example_body_def normalize_ollama_def destructure_default_def bindE_def item_name_def)

text \<open>
  C1, amended. For every supported provider that has a key (all but ollama), if the mode
  is local and the key is empty, and for every supported provider, if the mode is proxy
  and the shared access password is empty, \<^verbatim>\<open>refresh(provider)\<close> returns the empty list
  and no request is handed to \<^verbatim>\<open>fetch\<close>. The ollama provider has no key, and in local
  mode its request is always issued.
\<close>

theorem refresh_missing_credential:
  assumes "p \<in> set supported_providers"
  shows "((mode = ''local'' \<and> provider_key p s = Some []) \<or> (mode = ''proxy'' \<and> accessPassword s = [])
            \<longrightarrow> result (refresh e mode st p s) = Inr [] \<and> requests (refresh e mode st p s) = [])
         \<and> (mode = ''local'' \<and> provider_key p s = None
            \<longrightarrow> requests (refresh e mode st p s) \<noteq> [])"
proof (intro conjI impI)
  assume "(mode = ''local'' \<and> provider_key p s = Some []) \<or> (mode = ''proxy'' \<and> accessPassword s = [])"
  then have "credential_missing mode p s" by (simp only: credential_missing_def)
  from early_when_missing [OF assms this]
  show "result (refresh e mode st p s) = Inr []" and "requests (refresh e mode st p s) = []"
    by (simp_all only: requests_early_return result_early_return)
next
  assume "mode = ''local'' \<and> provider_key p s = None"
  then have "\<not> credential_missing mode p s" by (simp add: credential_missing_def)
  with assms show "requests (refresh e mode st p s) \<noteq> []" by (simp add: no_request_iff)
qed

text \<open>
  C1 at google in local mode with an empty key, and at ollama in local mode.
\<close>

theorem refresh_missing_credential_witness:
  "''google'' \<in> set supported_providers \<and> provider_key ''google'' empty_setting = Some []
   \<and> result (refresh example_env ''local'' [] ''google'' empty_setting) = Inr []
   \<and> requests (refresh example_env ''local'' [] ''google'' empty_setting) = []
   \<and> ''ollama'' \<in> set supported_providers \<and> provider_key ''ollama'' empty_setting = None
   \<and> requests (refresh example_env ''local'' [] ''ollama'' empty_setting) \<noteq> []"
proof -
  have g: "''google'' \<in> set supported_providers" and o: "''ollama'' \<in> set supported_providers"
    by (simp_all add: supported_providers_def)
  have kg: "provider_key ''google'' empty_setting = Some []"
    by (simp add: empty_setting_def)
  have ko: "provider_key ''ollama'' empty_setting = None" by simp
  from refresh_missing_credential [OF g, of "''local''" empty_setting example_env "[]"] kg
  have 1: "result (refresh example_env ''local'' [] ''google'' empty_setting) = Inr []"
    and 2: "requests (refresh example_env ''local'' [] ''google'' empty_setting) = []"
    by simp_all
  from refresh_missing_credential [OF o, of "''local''" empty_setting example_env "[]"] ko
  have 3: "requests (refresh example_env ''local'' [] ''ollama'' empty_setting) \<noteq> []"
    by simp
  from g kg 1 2 o ko 3 show ?thesis by (intro conjI)
qed

text \<open>
  C9. Whenever \<^verbatim>\<open>refresh\<close> returns the empty list without issuing a request, that is,
  on an unknown provider identifier or on a missing required credential, the held
  \<^verbatim>\<open>modelList\<close> is the one from before the call; and no call without a request changes
  it.
\<close>

theorem early_return_keeps_state:
  "(p \<notin> set supported_providers \<or> credential_missing mode p s \<longrightarrow>
      result (refresh e mode st p s) = Inr [] \<and> requests (refresh e mode st p s) = []
      \<and> modelList (refresh e mode st p s) = st)
   \<and> (requests (refresh e mode st p s) = [] \<longrightarrow> modelList (refresh e mode st p s) = st)"
proof -
  have early: "refresh e mode st p s = early_return st"
    if "p \<notin> set supported_providers \<or> credential_missing mode p s"
    using that unknown_provider early_when_missing by blast
  have "modelList (refresh e mode st p s) = st" if "requests (refresh e mode st p s) = []"
    using that early by (simp add: no_request_iff modelList_early_return)
  with early show ?thesis
    by (simp add: requests_early_return result_early_return modelList_early_return)
qed

text \<open>C9 at an identifier without a branch, with a list already held.\<close>

theorem early_return_keeps_state_witness:
  "''mistral'' \<notin> set supported_providers
   \<and> result (refresh example_env ''local'' [Some (JStr ''old-model'')] ''mistral'' empty_setting) = Inr []
   \<and> requests (refresh example_env ''local'' [Some (JStr ''old-model'')] ''mistral'' empty_setting) = []
   \<and> modelList (refresh example_env ''local'' [Some (JStr ''old-model'')] ''mistral'' empty_setting)
       = [Some (JStr ''old-model'')]"
  using early_return_keeps_state
    [of "''mistral''" "''local''" empty_setting example_env "[Some (JStr ''old-model'')]"]
  by (simp add: supported_providers_def)









text \<open>
  C4. For every provider with a key, in local mode with the key set, and for every
  outcome of \<^verbatim>\<open>shuffle\<close> that is a permutation of the pool (the comma-separated pieces
  of the key string): the shuffled list has a first element, which is a member of the
  pool, and the call issues exactly one request, whose URL does not involve the key and
  whose headers are the provider's header list with that one element as the credential.
  No other pool element is sent.
\<close>

theorem local_credential_from_pool:
  assumes "p \<in> set supported_providers" and "provider_key p s = Some key" and "key \<noteq> []"
    and "mset (shuffle e (js_split key)) = mset (js_split key)"
  shows "join_comma (js_split key) = key
         \<and> (\<forall>w \<in> set (js_split key). CHR '','' \<notin> set w)
         \<and> shuffle e (js_split key) \<noteq> []
         \<and> hd (shuffle e (js_split key)) \<in> set (js_split key)
         \<and> requests (refresh e ''local'' st p s)
             = [\<lparr>url = local_url e p s,
                 headers = local_headers p (hd (shuffle e (js_split key)))\<rparr>]"
proof -
  from first_of_permutation [OF assms(4) js_split_nonempty]
  obtain k rest where sh: "shuffle e (js_split key) = k # rest" and k: "k \<in> set (js_split key)"
    by blast
  from assms(3) have present: "\<not> missing_credential ''local'' key pw" for pw
    by (simp add: missing_credential_def)
  note tables = local_url_def local_headers_def bearer_headers_def requests_fetch_and_set
  have "requests (refresh e ''local'' st p s)
             = [\<lparr>url = local_url e p s, headers = local_headers p k\<rparr>]"
    using supported_cases [OF assms(1)]
  proof (elim disjE)
    assume p: "p = ''google''"
    with assms(2) have "apiKey s = key" by (simp add: provider_keys)
    with p sh present show ?thesis by (simp add: refresh_google fetched_google tables)
  next
    assume p: "p = ''openrouter''"
    with assms(2) have "openRouterApiKey s = key" by (simp add: provider_keys)
    with p sh present show ?thesis by (simp add: refresh_openrouter fetched_openrouter tables)
  next
    assume p: "p = ''openai''"
    with assms(2) have "openAIApiKey s = key" by (simp add: provider_keys)
    with p sh present show ?thesis by (simp add: refresh_openai fetched_openai tables)
  next
    assume p: "p = ''anthropic''"
    with assms(2) have "anthropicApiKey s = key" by (simp add: provider_keys)
    with p sh present show ?thesis by (simp add: refresh_anthropic fetched_anthropic tables)
  next
    assume p: "p = ''deepseek''"
    with assms(2) have "deepseekApiKey s = key" by (simp add: provider_keys)
    with p sh present show ?thesis by (simp add: refresh_deepseek fetched_deepseek tables)
  next
    assume p: "p = ''xai''"
    with assms(2) have "xAIApiKey s = key" by (simp add: provider_keys)
    with p sh present show ?thesis by (simp add: refresh_xai fetched_xai tables)
  next
    assume p: "p = ''openaicompatible''"
    with assms(2) have "openAICompatibleApiKey s = key" by (simp add: provider_keys)
    with p sh present show ?thesis
      by (simp add: refresh_openaicompatible fetched_openaicompatible tables)
  next
    assume p: "p = ''ollama''"
    with assms(2) show ?thesis by (simp add: provider_keys)
  qed
  with sh k show ?thesis by (simp add: join_js_split js_split_comma_free)
qed

text \<open>
  C4 at openai with the key string \<^verbatim>\<open>k1,k2\<close>: the pool is \<^verbatim>\<open>k1\<close>, \<^verbatim>\<open>k2\<close>, the example
  \<^verbatim>\<open>shuffle\<close> puts \<^verbatim>\<open>k2\<close> first, and the one header sent is \<^verbatim>\<open>Bearer k2\<close>.
\<close>

theorem local_credential_from_pool_witness:
  "''openai'' \<in> set supported_providers
   \<and> provider_key ''openai'' (empty_setting\<lparr>openAIApiKey := ''k1,k2''\<rparr>) = Some ''k1,k2''
   \<and> js_split ''k1,k2'' = [''k1'', ''k2'']
   \<and> shuffle example_env [''k1'', ''k2''] = [''k2'', ''k1'']
   \<and> requests (refresh example_env ''local'' [] ''openai'' (empty_setting\<lparr>openAIApiKey := ''k1,k2''\<rparr>))
       = [\<lparr>url = ''https://openai.example/v1/models'',
           headers = [(''authorization'', Some ''Bearer k2'')]\<rparr>]"
proof -
  let ?s = "empty_setting\<lparr>openAIApiKey := ''k1,k2''\<rparr>"
  have p: "''openai'' \<in> set supported_providers"
    by (simp add: supported_providers_def)
  have key: "provider_key ''openai'' ?s = Some ''k1,k2''"
    by simp
  have ne: "''k1,k2'' \<noteq> []" by simp
  have pool: "js_split ''k1,k2'' = [''k1'', ''k2'']" by simp
  have sh: "shuffle example_env [''k1'', ''k2''] = [''k2'', ''k1'']"
    by (simp add: example_env_def)
  have perm: "mset (shuffle example_env (js_split ''k1,k2'')) = mset (js_split ''k1,k2'')"
    by (simp add: example_env_def)
  have u: "local_url example_env ''openai'' ?s = ''https://openai.example/v1/models''"
    by (simp add: local_url_def example_env_def empty_setting_def or_else_def
        completePath_spec_def)
  have h: "local_headers ''openai'' ''k2'' = [(''authorization'', Some ''Bearer k2'')]"
    by (simp add: local_headers_def)
  from local_credential_from_pool [OF p key ne perm, of "[]"]
  have "requests (refresh example_env ''local'' [] ''openai'' ?s)
       = [\<lparr>url = local_url example_env ''openai'' ?s,
           headers = local_headers ''openai'' (hd (shuffle example_env (js_split ''k1,k2'')))\<rparr>]"
    by (elim conjE)
  then have "requests (refresh example_env ''local'' [] ''openai'' ?s)
       = [\<lparr>url = ''https://openai.example/v1/models'',
           headers = [(''authorization'', Some ''Bearer k2'')]\<rparr>]"
    by (simp only: pool sh u h list.sel)
  with p key pool sh show ?thesis by (intro conjI)
qed

text \<open>
  C2. On a response whose \<^verbatim>\<open>models\<close> array holds entries of the shape of
  \<^verbatim>\<open>GeminiModel\<close>, the Google normalizer keeps, in order, exactly the entries whose name
  starts with \<^verbatim>\<open>models/gemini\<close> and whose \<^verbatim>\<open>supportedGenerationMethods\<close> contains
  \<^verbatim>\<open>generateContent\<close>, and maps each to its name without the leading \<^verbatim>\<open>models/\<close>; on
  the body of the specification's example the result is \<^verbatim>\<open>["gemini-pro"]\<close>.
\<close>

theorem google_normalizer:
  assumes "get_prop body ''models'' = Inr (Some (JArr items))"
    and "list_all is_GeminiModel items"
  shows "normalize_google body
           = Inr (map (\<lambda>item. Some (JStr (drop (length ''models/'') (name_of item))))
                   (filter (\<lambda>item. startsWith (name_of item) ''models/gemini''
                                  \<and> JStr ''generateContent'' \<in> set (methods_of item)) items))
         \<and> normalize_google google_example = Inr [Some (JStr ''gemini-pro'')]"
proof
  from assms(2) have typed: "is_GeminiModel item" if "item \<in> set items" for item
    using that by (simp add: list_all_iff)
  have keep: "filterE google_keep items = Inr (filter gemini_kept items)"
    by (rule filterE_pure) (simp add: google_keep_typed typed)
  have names: "mapE google_name (filter gemini_kept items)
      = Inr (map (\<lambda>item. Some (JStr (drop (length ''models/'') (name_of item))))
               (filter gemini_kept items))"
    by (rule mapE_pure) (simp add: google_name_typed typed)
  have "gemini_kept = (\<lambda>item. startsWith (name_of item) ''models/gemini''
                                  \<and> JStr ''generateContent'' \<in> set (methods_of item))"
    by (rule ext) (simp add: gemini_kept_def)
  with keep names show "normalize_google body
           = Inr (map (\<lambda>item. Some (JStr (drop (length ''models/'') (name_of item))))
                   (filter (\<lambda>item. startsWith (name_of item) ''models/gemini''
                                  \<and> JStr ''generateContent'' \<in> set (methods_of item)) items))"
    by (simp add: normalize_google_def destructure_default_def assms(1) bindE_def)
next
  show "normalize_google google_example = Inr [Some (JStr ''gemini-pro'')]"
    by (simp add: normalize_google_def google_example_def google_example_models_def
        destructure_default_def bindE_def google_keep_def google_name_def)
qed

text \<open>C2 at the example: the general statement, evaluated, gives the same list.\<close>

theorem google_normalizer_witness:
  "get_prop google_example ''models'' = Inr (Some (JArr google_example_models))
   \<and> list_all is_GeminiModel google_example_models
   \<and> normalize_google google_example = Inr [Some (JStr ''gemini-pro'')]"
proof -
  have body: "get_prop google_example ''models'' = Inr (Some (JArr google_example_models))"
    by (simp add: google_example_def)
  have typed: "list_all is_GeminiModel google_example_models"
    by (simp add: google_example_models_def is_GeminiModel_def)
  from google_normalizer [OF body typed] have "normalize_google google_example
           = Inr (map (\<lambda>item. Some (JStr (drop (length ''models/'') (name_of item))))
                   (filter (\<lambda>item. startsWith (name_of item) ''models/gemini''
                                  \<and> JStr ''generateContent'' \<in> set (methods_of item))
                      google_example_models))"
    by (rule conjunct1)
  also have "\<dots> = Inr [Some (JStr ''gemini-pro'')]"
    by (simp add: google_example_models_def name_of_def methods_of_def)
  finally show ?thesis using body typed by simp
qed

text \<open>
  C7. On a response whose \<^verbatim>\<open>data\<close> array holds entries of the shape of \<^verbatim>\<open>OpenAIModel\<close>,
  the OpenAI normalizer maps each entry to its id and drops every id that starts with
  \<^verbatim>\<open>text\<close>, \<^verbatim>\<open>tts\<close>, \<^verbatim>\<open>whisper\<close> or \<^verbatim>\<open>dall-e\<close>, keeping the order; on the body of the
  specification's example the result is \<^verbatim>\<open>["gpt-4"]\<close>.
\<close>

theorem openai_normalizer:
  assumes "get_prop body ''data'' = Inr (Some (JArr items))"
    and "list_all is_OpenAIModel items"
  shows "normalize_openai body
           = Inr (map (\<lambda>i. Some (JStr i))
                   (filter (\<lambda>i. \<not> (startsWith i ''text'' \<or> startsWith i ''tts''
                                     \<or> startsWith i ''whisper'' \<or> startsWith i ''dall-e''))
                      (map id_of items)))
         \<and> normalize_openai openai_example = Inr [Some (JStr ''gpt-4'')]"
proof
  from assms(2) have typed: "is_OpenAIModel item" if "item \<in> set items" for item
    using that by (simp add: list_all_iff)
  have ids: "mapE item_id items = Inr (map (\<lambda>item. Some (JStr (id_of item))) items)"
    by (rule mapE_pure) (simp add: item_id_def OpenAIModel_props typed)
  have "filterE openai_keep (map (\<lambda>i. Some (JStr i)) ids)
          = Inr (map (\<lambda>i. Some (JStr i)) (filter (\<lambda>i. \<not> openai_dropped i) ids))" for ids
    by (induction ids) (simp_all add: openai_keep_str bindE_def)
  from this [of "map id_of items"]
  have keep: "filterE openai_keep (map (\<lambda>item. Some (JStr (id_of item))) items)
          = Inr (map (\<lambda>i. Some (JStr i)) (filter (\<lambda>i. \<not> openai_dropped i) (map id_of items)))"
    by (simp add: comp_def)
  from ids keep show "normalize_openai body
           = Inr (map (\<lambda>i. Some (JStr i))
                   (filter (\<lambda>i. \<not> (startsWith i ''text'' \<or> startsWith i ''tts''
                                     \<or> startsWith i ''whisper'' \<or> startsWith i ''dall-e''))
                      (map id_of items)))"
    by (simp add: normalize_openai_def destructure_default_def assms(1) bindE_def
        openai_dropped_def)
next
  show "normalize_openai openai_example = Inr [Some (JStr ''gpt-4'')]"
    by (simp add: normalize_openai_def openai_example_def openai_example_data_def
        destructure_default_def bindE_def item_id_def openai_keep_def)
qed

text \<open>C7 at the example: the general statement, evaluated, gives the same list.\<close>

theorem openai_normalizer_witness:
  "get_prop openai_example ''data'' = Inr (Some (JArr openai_example_data))
   \<and> list_all is_OpenAIModel openai_example_data
   \<and> normalize_openai openai_example = Inr [Some (JStr ''gpt-4'')]"
proof -
  have body: "get_prop openai_example ''data'' = Inr (Some (JArr openai_example_data))"
    by (simp add: openai_example_def)
  have typed: "list_all is_OpenAIModel openai_example_data"
    by (simp add: openai_example_data_def is_OpenAIModel_def)
  from openai_normalizer [OF body typed] have "normalize_openai openai_example
           = Inr (map (\<lambda>i. Some (JStr i))
                   (filter (\<lambda>i. \<not> (startsWith i ''text'' \<or> startsWith i ''tts''
                                     \<or> startsWith i ''whisper'' \<or> startsWith i ''dall-e''))
                      (map id_of openai_example_data)))"
    by (rule conjunct1)
  also have "\<dots> = Inr [Some (JStr ''gpt-4'')]"
    by (simp add: openai_example_data_def id_of_def)
  finally show ?thesis using body typed by simp
qed

text \<open>
  C6, as stated, fails at the body \<^verbatim>\<open>null\<close>: it is valid JSON and has no \<^verbatim>\<open>models\<close>
  field, but destructuring it throws, so the call of \<^verbatim>\<open>refresh\<close> rejects with a
  \<^verbatim>\<open>TypeError\<close>.
\<close>

theorem null_body_raises:
  "field_absent JNull (array_field ''ollama'')
   \<and> requests (refresh null_env ''local'' [] ''ollama'' empty_setting)
       = [\<lparr>url = ''http://localhost:11434/api/tags'', headers = []\<rparr>]
   \<and> fetch null_env \<lparr>url = ''http://localhost:11434/api/tags'', headers = []\<rparr> = Inr JNull
   \<and> result (refresh null_env ''local'' [] ''ollama'' empty_setting) = Inl TypeError"
  by (simp add: refresh_ollama refresh_ollama_def Let_def fetch_and_set_def null_env_def
      example_env_def empty_setting_def or_else_def completePath_spec_def normalize_ollama_def
      destructure_default_def bindE_def)

text \<open>
  C6, amended. For every supported provider, if the response body is a JSON value other
  than \<^verbatim>\<open>null\<close> that lacks the expected array field (\<^verbatim>\<open>models\<close> for google and ollama,
  \<^verbatim>\<open>data\<close> for the others), the normalizer takes the field as the empty array and
  returns the empty list without raising; \<^verbatim>\<open>refresh\<close> returns it and stores it.
\<close>

theorem missing_array_field:
  assumes "p \<in> set supported_providers"
    and "body \<noteq> JNull" and "field_absent body (array_field p)"
    and "requests (refresh e mode st p s) = [req]" and "fetch e req = Inr body"
  shows "normalizer_of p body = Inr []
         \<and> result (refresh e mode st p s) = Inr []
         \<and> modelList (refresh e mode st p s) = []"
proof -
  from absent_undefined [OF assms(2,3)] have "get_prop body (array_field p) = Inr None" .
  from normalizer_default [OF assms(1) this] have "normalizer_of p body = Inr []" .
  with refresh_result [OF assms(1,4,5)] show ?thesis by simp
qed

text \<open>C6 at openai in proxy mode, answered with an error object.\<close>

theorem missing_array_field_witness:
  "''openai'' \<in> set supported_providers
   \<and> field_absent (JObj [(''error'', JStr ''unauthorized'')]) (array_field ''openai'')
   \<and> requests (refresh (example_env\<lparr>fetch := (\<lambda>req. Inr (JObj [(''error'', JStr ''unauthorized'')]))\<rparr>)
         ''proxy'' [Some (JStr ''old-model'')] ''openai'' (empty_setting\<lparr>accessPassword := ''secret''\<rparr>))
       = [\<lparr>url = ''/api/ai/openai/v1/models'', headers = [(''authorization'', Some ''Bearer secret'')]\<rparr>]
   \<and> result (refresh (example_env\<lparr>fetch := (\<lambda>req. Inr (JObj [(''error'', JStr ''unauthorized'')]))\<rparr>)
         ''proxy'' [Some (JStr ''old-model'')] ''openai'' (empty_setting\<lparr>accessPassword := ''secret''\<rparr>))
       = Inr []
   \<and> modelList (refresh (example_env\<lparr>fetch := (\<lambda>req. Inr (JObj [(''error'', JStr ''unauthorized'')]))\<rparr>)
         ''proxy'' [Some (JStr ''old-model'')] ''openai'' (empty_setting\<lparr>accessPassword := ''secret''\<rparr>))
       = []"
proof -
  let ?body = "JObj [(''error'', JStr ''unauthorized'')]"
  let ?e = "example_env\<lparr>fetch := (\<lambda>req. Inr ?body)\<rparr>"
  let ?s = "empty_setting\<lparr>accessPassword := ''secret''\<rparr>"
  let ?req = "\<lparr>url = ''/api/ai/openai/v1/models'', headers = [(''authorization'', Some ''Bearer secret'')]\<rparr>"
  have p: "''openai'' \<in> set supported_providers" by (simp add: supported_providers_def)
  have nn: "?body \<noteq> JNull" by simp
  have absent: "field_absent ?body (array_field ''openai'')" by (simp add: array_field_def)
  have req: "requests (refresh ?e ''proxy'' [Some (JStr ''old-model'')] ''openai'' ?s) = [?req]"
    by (simp add: refresh_openai fetched_openai missing_credential_def requests_fetch_and_set
        bearer_headers_def)
  have answer: "fetch ?e ?req = Inr ?body" by simp
  from missing_array_field [OF p nn absent req answer] p absent req show ?thesis by simp
qed

end
